theory Spec2Isabelle
  imports Complex_Main "HOL-Library.Sublist"
begin

section \<open>Data model (src/types.ts)\<close>

text \<open>
  The two string-literal unions of \<^verbatim>\<open>DoodleStyle\<close> are datatypes, the interfaces are
  records. Field names that two records share carry the suffix \<open>_entry\<close> on the
  entry's side, and \<open>id\<close> (a HOL constant) is \<open>id_entry\<close>. A JavaScript string is a
  \<open>string\<close>; \<open>null\<close> and \<open>undefined\<close> are \<open>None\<close>.
\<close>

datatype thickness = Fine | Medium | Bold

datatype artStyle = Minimalist | Crayon | Felt_Tip | Charcoal | Abstract

record DoodleStyle =
  thickness :: thickness
  color :: string
  artStyle :: artStyle

record DoodleEntry =
  id_entry :: string
  date_entry :: string
  transcript_entry :: string
  imageUrl :: string
  prompt :: string
  style_entry :: DoodleStyle

section \<open>Component state (src/App.tsx, lines 9--22)\<close>

record app_state =
  transcript :: string
  isRecording :: bool
  isGenerating :: bool
  isExporting :: bool
  currentDoodle :: "DoodleEntry option"
  history :: "DoodleEntry list"
  error :: "string option"
  style :: DoodleStyle

definition initial_style :: DoodleStyle where
  "initial_style = \<lparr>thickness = Medium, color = ''Black'', artStyle = Minimalist\<rparr>"

definition initial_state :: app_state where
  "initial_state =
     \<lparr>transcript = [], isRecording = False, isGenerating = False, isExporting = False,
      currentDoodle = None, history = [], error = None, style = initial_style\<rparr>"

section \<open>History updates\<close>

text \<open>
  Line 89: the updater \<^verbatim>\<open>prev => [newEntry, ...prev]\<close>.
\<close>

definition add_entry :: "DoodleEntry \<Rightarrow> DoodleEntry list \<Rightarrow> DoodleEntry list" where
  "add_entry newEntry prev = newEntry # prev"

text \<open>
  Line 153: the updater \<^verbatim>\<open>prev => prev.filter(e => e.id !== id)\<close>.
\<close>

definition remove_entry :: "string \<Rightarrow> DoodleEntry list \<Rightarrow> DoodleEntry list" where
  "remove_entry i prev = filter (\<lambda>e. id_entry e \<noteq> i) prev"

text \<open>
  Lines 152--155: \<^verbatim>\<open>deleteEntry\<close>. The optional chain \<^verbatim>\<open>currentDoodle?.id === id\<close> is
  false when the reference is \<open>null\<close>.
\<close>

definition deleteEntry :: "string \<Rightarrow> app_state \<Rightarrow> app_state" where
  "deleteEntry i s =
     (let s1 = s\<lparr>history := remove_entry i (history s)\<rparr>
      in (case currentDoodle s of
            None \<Rightarrow> s1
          | Some d \<Rightarrow> if id_entry d = i then s1\<lparr>currentDoodle := None\<rparr> else s1))"

section \<open>String built-ins the handlers call\<close>

text \<open>
  \<^verbatim>\<open>String.prototype.trim\<close> strips white space and line terminators from both ends.
  A \<open>char\<close> is one of 256 codes, so the white space set is the part of
  ECMAScript's below 256: tab, line feed, vertical tab, form feed, carriage
  return, space and no-break space.
\<close>

definition is_white_space :: "char \<Rightarrow> bool" where
  "is_white_space c \<longleftrightarrow>
     c \<in> set [CHR 0x09, CHR 0x0A, CHR 0x0B, CHR 0x0C, CHR 0x0D, CHR 0x20, CHR 0xA0]"

definition trim :: "string \<Rightarrow> string" where
  "trim t = rev (dropWhile is_white_space (rev (dropWhile is_white_space t)))"

text \<open>
  \<^verbatim>\<open>s.split(c)\<close> for a one-character separator: the pieces between the occurrences
  of \<open>c\<close>, never an empty array (\<^verbatim>\<open>"".split(",")\<close> is \<^verbatim>\<open>[""]\<close>).
\<close>

fun split :: "char \<Rightarrow> string \<Rightarrow> string list" where
  "split c [] = [[]]"
| "split c (x # xs) =
     (if x = c then [] # split c xs
      else (case split c xs of
              [] \<Rightarrow> [[x]]
            | p # ps \<Rightarrow> (x # p) # ps))"

text \<open>
  An array read \<^verbatim>\<open>a[i]\<close>: \<open>undefined\<close> out of range.
\<close>

definition index :: "'a list \<Rightarrow> nat \<Rightarrow> 'a option" where
  "index a i = (if i < length a then Some (a ! i) else None)"

text \<open>
  \<^verbatim>\<open>Number.prototype.toString\<close> on a non-negative integer: its decimal digits.
\<close>

definition digit :: "nat \<Rightarrow> char" where
  "digit d = char_of (of_char CHR ''0'' + d)"

fun toString :: "nat \<Rightarrow> string" where
  "toString n = (if n < 10 then [digit n] else toString (n div 10) @ [digit (n mod 10)])"

declare toString.simps [simp del]

section \<open>The generative service (src/App.tsx, lines 442--589)\<close>

text \<open>
  \<^verbatim>\<open>this.ai.models.generateContent\<close> is the remote call. It is a parameter of the
  model: a function from the request to either a rejection (\<open>Inl\<close>, the thrown
  value) or a response. A response carries what the two methods read from it:
  the \<^verbatim>\<open>text\<close> getter and \<^verbatim>\<open>candidates?.[0]?.content?.parts\<close>, each link of the
  chain optional.
\<close>

datatype request =
  PromptRequest (req_thicknessDesc: string) (req_style: DoodleStyle) (req_transcript: string)
| ImageRequest (req_prompt: string)

datatype blob = Blob (data: "string option")

datatype part = Part (part_text: "string option") (inlineData: "blob option")

datatype content = Content (parts: "part list option")

datatype candidate = Candidate (content: "content option")

datatype response = Response (response_text: "string option") (candidates: "candidate list option")

type_synonym generateContent = "request \<Rightarrow> string + response"

text \<open>
  Lines 545--560: \<^verbatim>\<open>generateVisualPrompt\<close>. \<^verbatim>\<open>response.text || "..."\<close> takes the
  fallback when the text is undefined or empty.
\<close>

definition thicknessDesc :: "DoodleStyle \<Rightarrow> string" where
  "thicknessDesc st =
     (if thickness st = Fine then ''ultra-thin delicate''
      else if thickness st = Bold then ''thick chunky'' else ''medium'')"

definition prompt_request :: "string \<Rightarrow> DoodleStyle \<Rightarrow> request" where
  "prompt_request t st = PromptRequest (thicknessDesc st) st t"

definition generateVisualPrompt :: "generateContent \<Rightarrow> string \<Rightarrow> DoodleStyle \<Rightarrow> string + string" where
  "generateVisualPrompt ai t st =
     (case ai (prompt_request t st) of
        Inl err \<Rightarrow> Inl err
      | Inr r \<Rightarrow>
          Inr (case response_text r of
                 None \<Rightarrow> ''A simple doodle of a peaceful day.''
               | Some txt \<Rightarrow> if txt = [] then ''A simple doodle of a peaceful day.'' else txt))"

text \<open>
  Lines 565--586: \<^verbatim>\<open>generateDoodle\<close>. The loop stops at the first part that has
  \<^verbatim>\<open>inlineData\<close>; with no such part the initial \<^verbatim>\<open>""\<close> is returned. A template
  literal prints an undefined \<^verbatim>\<open>data\<close> as \<^verbatim>\<open>undefined\<close>.
\<close>

definition response_parts :: "response \<Rightarrow> part list" where
  "response_parts r =
     (case candidates r of
        None \<Rightarrow> []
      | Some cs \<Rightarrow>
          (case index cs 0 of
             None \<Rightarrow> []
           | Some c \<Rightarrow>
               (case content c of
                  None \<Rightarrow> []
                | Some ct \<Rightarrow> (case parts ct of None \<Rightarrow> [] | Some ps \<Rightarrow> ps))))"

fun first_inline_image :: "part list \<Rightarrow> string" where
  "first_inline_image [] = []"
| "first_inline_image (p # ps) =
     (case inlineData p of
        Some b \<Rightarrow> ''data:image/png;base64,'' @ (case data b of None \<Rightarrow> ''undefined'' | Some d \<Rightarrow> d)
      | None \<Rightarrow> first_inline_image ps)"

definition generateDoodle :: "generateContent \<Rightarrow> string \<Rightarrow> string + string" where
  "generateDoodle ai visualPrompt =
     (case ai (ImageRequest visualPrompt) of
        Inl err \<Rightarrow> Inl err
      | Inr r \<Rightarrow> Inr (first_inline_image (response_parts r)))"

section \<open>Generation (src/App.tsx, lines 70--97 and 228--231)\<close>

text \<open>
  The clock and the locale are parameters: \<open>now_ms\<close> is \<^verbatim>\<open>Date.now()\<close> and
  \<open>locale_date\<close> is what \<^verbatim>\<open>toLocaleDateString\<close> prints, both read when the entry
  is built.
\<close>

record clock =
  now_ms :: nat
  locale_date :: string

text \<open>
  The handler reads \<^verbatim>\<open>transcript\<close> and \<^verbatim>\<open>style\<close> from the
  render it was created in, so both are taken from the state \<open>s\<close> of the call.
  Its state updates after the two \<^verbatim>\<open>await\<close>s land on whatever the state is by
  then: \<open>during\<close> is what other handlers did to it in the meantime (\<open>\<lambda>s. s\<close> when
  nothing else ran). The second component of the result lists the remote calls
  made, the third what went to the console.
\<close>

definition generate_failed :: string where
  "generate_failed = ''Failed to generate doodle. Please try again.''"

definition generate_remote :: "generateContent \<Rightarrow> string \<Rightarrow> DoodleStyle \<Rightarrow> (string + string \<times> string) \<times> request list" where
  "generate_remote ai t st =
     (case generateVisualPrompt ai t st of
        Inl err \<Rightarrow> (Inl err, [prompt_request t st])
      | Inr visualPrompt \<Rightarrow>
          (case generateDoodle ai visualPrompt of
             Inl err \<Rightarrow> (Inl err, [prompt_request t st, ImageRequest visualPrompt])
           | Inr url \<Rightarrow> (Inr (visualPrompt, url), [prompt_request t st, ImageRequest visualPrompt])))"

definition new_entry :: "clock \<Rightarrow> string \<Rightarrow> DoodleStyle \<Rightarrow> string \<Rightarrow> string \<Rightarrow> DoodleEntry" where
  "new_entry clk t st visualPrompt url =
     \<lparr>id_entry = toString (now_ms clk), date_entry = locale_date clk, transcript_entry = t,
      imageUrl = url, prompt = visualPrompt, style_entry = st\<rparr>"

definition handleGenerateDoodle ::
  "clock \<Rightarrow> generateContent \<Rightarrow> (app_state \<Rightarrow> app_state) \<Rightarrow> app_state \<Rightarrow> app_state \<times> request list \<times> string list" where
  "handleGenerateDoodle clk ai during s =
     (if trim (transcript s) = [] then (s, [], [])
      else
        (let s1 = during (s\<lparr>isGenerating := True, error := None\<rparr>)
         in (case generate_remote ai (transcript s) (style s) of
               (Inl err, calls) \<Rightarrow>
                 (s1\<lparr>error := Some generate_failed, isGenerating := False\<rparr>, calls, [err])
             | (Inr (visualPrompt, url), calls) \<Rightarrow>
                 (let newEntry = new_entry clk (transcript s) (style s) visualPrompt url
                  in (s1\<lparr>currentDoodle := Some newEntry,
                          history := add_entry newEntry (history s1),
                          transcript := [],
                          isGenerating := False\<rparr>, calls, [])))))"

text \<open>
  Lines 228--231: the only caller. The button is \<^verbatim>\<open>disabled\<close> when
  \<^verbatim>\<open>!transcript.trim() || isGenerating\<close>, and a disabled button does not run its
  \<^verbatim>\<open>onClick\<close>.
\<close>

definition generate_disabled :: "app_state \<Rightarrow> bool" where
  "generate_disabled s \<longleftrightarrow> trim (transcript s) = [] \<or> isGenerating s"

definition click_generate ::
  "clock \<Rightarrow> generateContent \<Rightarrow> (app_state \<Rightarrow> app_state) \<Rightarrow> app_state \<Rightarrow> app_state \<times> request list \<times> string list" where
  "click_generate clk ai during s =
     (if generate_disabled s then (s, [], []) else handleGenerateDoodle clk ai during s)"

section \<open>The archive (src/App.tsx, lines 99--150)\<close>

text \<open>
  A JSON value, as \<^verbatim>\<open>JSON.stringify\<close> takes it and \<^verbatim>\<open>JSON.parse\<close> returns it: null,
  booleans, numbers, strings, arrays, and objects with their keys in insertion
  order.
\<close>

datatype json =
  JNull | JBool bool | JNumber real | JString string | JArray "json list"
| JObject "(string \<times> json) list"

fun json_keys :: "json \<Rightarrow> string list" where
  "json_keys (JObject kvs) = map fst kvs"
| "json_keys _ = []"

fun json_get :: "string \<Rightarrow> json \<Rightarrow> json option" where
  "json_get k (JObject kvs) = map_of kvs k"
| "json_get k _ = None"

text \<open>
  A \<^verbatim>\<open>JSZip\<close> object is the list of its \<^verbatim>\<open>folder\<close> and \<^verbatim>\<open>file\<close> calls in order, each
  with the full path it writes. \<open>Base64 d\<close> is the content of a call with the
  option \<^verbatim>\<open>{ base64: true }\<close>: the bytes that \<open>d\<close> encodes; \<open>JsonText j\<close> is the
  text \<^verbatim>\<open>JSON.stringify(j, null, 2)\<close>. A later call on a path replaces the earlier
  one, so the archive holds for each path what the last call wrote.
\<close>

datatype file_data = Text string | Base64 string | JsonText json

datatype zip_object = Folder | File file_data

type_synonym zip = "(string \<times> zip_object) list"

definition zip_folder :: "string \<Rightarrow> zip \<Rightarrow> zip" where
  "zip_folder name z = z @ [(name @ ''/'', Folder)]"

definition zip_file :: "string \<Rightarrow> file_data \<Rightarrow> zip \<Rightarrow> zip" where
  "zip_file path d z = z @ [(path, File d)]"

definition zip_lookup :: "zip \<Rightarrow> string \<Rightarrow> zip_object option" where
  "zip_lookup z path = map_of (rev z) path"

definition thickness_name :: "thickness \<Rightarrow> string" where
  "thickness_name t = (case t of Fine \<Rightarrow> ''Fine'' | Medium \<Rightarrow> ''Medium'' | Bold \<Rightarrow> ''Bold'')"

definition artStyle_name :: "artStyle \<Rightarrow> string" where
  "artStyle_name a =
     (case a of Minimalist \<Rightarrow> ''Minimalist'' | Crayon \<Rightarrow> ''Crayon'' | Felt_Tip \<Rightarrow> ''Felt Tip''
      | Charcoal \<Rightarrow> ''Charcoal'' | Abstract \<Rightarrow> ''Abstract'')"

definition style_json :: "DoodleStyle \<Rightarrow> json" where
  "style_json st =
     JObject [(''thickness'', JString (thickness_name (thickness st))),
              (''color'', JString (color st)),
              (''artStyle'', JString (artStyle_name (artStyle st)))]"

text \<open>
  Lines 124--129: the object pushed on \<^verbatim>\<open>metadata\<close>.
\<close>

definition metadata_of :: "DoodleEntry \<Rightarrow> json" where
  "metadata_of entry =
     JObject [(''id'', JString (id_entry entry)),
              (''date'', JString (date_entry entry)),
              (''style'', style_json (style_entry entry)),
              (''prompt'', JString (prompt entry))]"

text \<open>
  Line 119: \<^verbatim>\<open>entry.imageUrl.split(',')[1]\<close>, the piece between the first comma and
  the second (or the end), \<open>undefined\<close> when there is no comma.
\<close>

definition base64Data :: "DoodleEntry \<Rightarrow> string option" where
  "base64Data entry = index (split CHR '','' (imageUrl entry)) 1"

definition fileNameBase :: "DoodleEntry \<Rightarrow> string" where
  "fileNameBase entry = ''doodle-'' @ id_entry entry"

definition transcript_path :: "DoodleEntry \<Rightarrow> string" where
  "transcript_path entry = ''transcripts/'' @ fileNameBase entry @ ''.txt''"

definition image_path :: "DoodleEntry \<Rightarrow> string" where
  "image_path entry = ''doodles/'' @ fileNameBase entry @ ''.png''"

text \<open>
  Lines 111--130: one round of the loop, on the archive and the metadata array.
  \<^verbatim>\<open>if (base64Data)\<close> is false for \<open>undefined\<close> and for the empty string.
\<close>

definition export_entry :: "DoodleEntry \<Rightarrow> zip \<times> json list \<Rightarrow> zip \<times> json list" where
  "export_entry entry acc =
     (let z1 = zip_file (transcript_path entry) (Text (transcript_entry entry)) (fst acc);
          z2 = (case base64Data entry of
                  None \<Rightarrow> z1
                | Some d \<Rightarrow> if d = [] then z1 else zip_file (image_path entry) (Base64 d) z1)
      in (z2, snd acc @ [metadata_of entry]))"

fun export_entries :: "DoodleEntry list \<Rightarrow> zip \<times> json list \<Rightarrow> zip \<times> json list" where
  "export_entries [] acc = acc"
| "export_entries (entry # es) acc = export_entries es (export_entry entry acc)"

text \<open>
  Lines 105--132: the archive as it is handed to \<^verbatim>\<open>generateAsync\<close>.
\<close>

definition manifest :: "json list \<Rightarrow> string \<Rightarrow> json" where
  "manifest metadata exportedAt =
     JObject [(''entries'', JArray metadata), (''exportedAt'', JString exportedAt)]"

definition build_archive :: "string \<Rightarrow> DoodleEntry list \<Rightarrow> zip" where
  "build_archive exportedAt h =
     (let acc = export_entries h (zip_folder ''transcripts'' (zip_folder ''doodles'' []), [])
      in zip_file ''index.json'' (JsonText (manifest (snd acc) exportedAt)) (fst acc))"

text \<open>
  The two \<^verbatim>\<open>new Date().toISOString()\<close> readings are parameters, and so is
  \<^verbatim>\<open>generateAsync\<close>: \<open>Some e\<close> when its promise rejects with \<open>e\<close>. The blob of a
  fulfilled promise is represented by the archive it serialises.
\<close>

record export_clock =
  exportedAt_iso :: string
  download_iso :: string

record export_outcome =
  exp_state :: app_state
  exp_archive :: "zip option"
  exp_download :: "(string \<times> zip) option"
  exp_console :: "string list"

definition export_failed :: string where
  "export_failed = ''Failed to create archive. Please try again.''"

definition download_name :: "string \<Rightarrow> string" where
  "download_name t =
     ''DoodleDiary-Archive-''
       @ (case index (split CHR ''T'' t) 0 of None \<Rightarrow> ''undefined'' | Some d \<Rightarrow> d) @ ''.zip''"

definition handleExportArchive :: "export_clock \<Rightarrow> (zip \<Rightarrow> string option) \<Rightarrow> app_state \<Rightarrow> export_outcome" where
  "handleExportArchive clk generateAsync s =
     (if length (history s) = 0
      then \<lparr>exp_state = s, exp_archive = None, exp_download = None, exp_console = []\<rparr>
      else
        (let s1 = s\<lparr>isExporting := True, error := None\<rparr>;
             z = build_archive (exportedAt_iso clk) (history s)
         in (case generateAsync z of
               Some err \<Rightarrow>
                 \<lparr>exp_state = s1\<lparr>error := Some export_failed, isExporting := False\<rparr>,
                  exp_archive = Some z, exp_download = None,
                  exp_console = [''Export failed:'', err]\<rparr>
             | None \<Rightarrow>
                 \<lparr>exp_state = s1\<lparr>isExporting := False\<rparr>,
                  exp_archive = Some z,
                  exp_download = Some (download_name (download_iso clk), z),
                  exp_console = []\<rparr>)))"

text \<open>
  A well-formed payload, in the specification's sense: base64 in the standard
  alphabet, a non-empty multiple of four characters, all of the alphabet but for
  at most two closing \<open>=\<close>. The code has no such test.
\<close>

definition is_base64_char :: "char \<Rightarrow> bool" where
  "is_base64_char c \<longleftrightarrow>
     c \<in> set ''ABCDEFGHIJKLMNOPQRSTUVWXYZabcdefghijklmnopqrstuvwxyz0123456789+/''"

definition well_formed_base64 :: "string \<Rightarrow> bool" where
  "well_formed_base64 d \<longleftrightarrow>
     d \<noteq> [] \<and> length d mod 4 = 0 \<and>
     (let body = rev (dropWhile (\<lambda>c. c = CHR ''='') (rev d))
      in length d - length body \<le> 2 \<and> list_all is_base64_char body)"

section \<open>Loading the persisted history (src/App.tsx, lines 26--35 and 361--391)\<close>









section \<open>Sample inputs\<close>

text \<open>
  Concrete clocks, services, entries and states at which the theorems below are
  evaluated.
\<close>

definition sample_clock :: clock where
  "sample_clock = \<lparr>now_ms = 1700000000000, locale_date = ''Tuesday, November 14, 2023''\<rparr>"

definition sample_export_clock :: export_clock where
  "sample_export_clock =
     \<lparr>exportedAt_iso = ''2023-11-14T09:30:00.000Z'', download_iso = ''2023-11-14T09:30:00.004Z''\<rparr>"

definition picnic_prompt :: string where
  "picnic_prompt = ''A Minimalist hand-drawn doodle of a picnic''"

definition png_response :: response where
  "png_response =
     Response None (Some [Candidate (Some (Content (Some [Part None (Some (Blob (Some ''iVBORw0KGgo='')))])))])"

definition text_only_response :: response where
  "text_only_response =
     Response None (Some [Candidate (Some (Content (Some [Part (Some ''No image today.'') None])))])"

fun painting_service :: generateContent where
  "painting_service (PromptRequest d st t) = Inr (Response (Some picnic_prompt) None)"
| "painting_service (ImageRequest p) = Inr png_response"

fun text_only_service :: generateContent where
  "text_only_service (PromptRequest d st t) = Inr (Response (Some picnic_prompt) None)"
| "text_only_service (ImageRequest p) = Inr text_only_response"

fun failing_prompt_service :: generateContent where
  "failing_prompt_service req = Inl ''503''"

fun failing_image_service :: generateContent where
  "failing_image_service (PromptRequest d st t) = Inr (Response (Some picnic_prompt) None)"
| "failing_image_service (ImageRequest p) = Inl ''quota''"

fun zip_succeeds :: "zip \<Rightarrow> string option" where
  "zip_succeeds z = None"


definition picnic_state :: app_state where
  "picnic_state = initial_state\<lparr>transcript := ''Had a picnic''\<rparr>"

definition same_ms_state :: app_state where
  "same_ms_state =
     fst (handleGenerateDoodle sample_clock painting_service id
            ((fst (handleGenerateDoodle sample_clock painting_service id picnic_state))
               \<lparr>transcript := ''Went home''\<rparr>))"

definition sketch :: DoodleEntry where
  "sketch =
     \<lparr>id_entry = ''1700000000000'', date_entry = ''Tuesday, November 14, 2023'',
      transcript_entry = ''Had a picnic'', imageUrl = ''data:image/png;base64,iVBORw0KGgo='',
      prompt = picnic_prompt, style_entry = initial_style\<rparr>"

definition blank_sketch :: DoodleEntry where
  "blank_sketch =
     sketch\<lparr>id_entry := ''1700000000001'', transcript_entry := ''Rained all day'', imageUrl := []\<rparr>"

definition garbled_sketch :: DoodleEntry where
  "garbled_sketch =
     sketch\<lparr>id_entry := ''1700000000002'', imageUrl := ''data:image/png;base64,%%%''\<rparr>"

definition two_entry_state :: app_state where
  "two_entry_state = initial_state\<lparr>history := [blank_sketch, sketch], currentDoodle := Some sketch\<rparr>"

definition twin_state :: app_state where
  "twin_state =
     initial_state\<lparr>history := [sketch, blank_sketch, sketch\<lparr>transcript_entry := ''Went home''\<rparr>]\<rparr>"

section \<open>Helper lemmas\<close>

lemma index_simps [simp]:
  "index [] i = None"
  "index (x # xs) 0 = Some x"
  "index (x # xs) (Suc n) = index xs n"
  "index [x, y] 1 = Some y"
  "index [x] 1 = None"
  by (simp_all add: index_def)

lemma dropWhile_all: "(\<forall>x \<in> set (dropWhile P t). P x) \<longleftrightarrow> (\<forall>c \<in> set t. P c)"
  by (induction t) auto

lemma trim_empty_iff: "trim t = [] \<longleftrightarrow> (\<forall>c \<in> set t. is_white_space c)"
  by (simp add: trim_def dropWhile_eq_Nil_conv dropWhile_all)

lemma trim_picnic: "trim ''Had a picnic'' = ''Had a picnic''"
  by (simp add: trim_def is_white_space_def)

lemma trim_went_home: "trim ''Went home'' = ''Went home''"
  by (simp add: trim_def is_white_space_def)

lemma first_inline_image_empty_iff:
  "first_inline_image ps = [] \<longleftrightarrow> (\<forall>p \<in> set ps. inlineData p = None)"
  by (induction ps) (auto split: option.splits)

lemma split_no_sep: "c \<notin> set xs \<Longrightarrow> split c xs = [xs]"
  by (induction xs) auto

lemma split_first_sep: "c \<notin> set pre \<Longrightarrow> split c (pre @ c # rest) = pre # split c rest"
  by (induction pre) auto

lemma snd_export_entries: "snd (export_entries h acc) = snd acc @ map metadata_of h"
  by (induction h arbitrary: acc) (auto simp: export_entry_def Let_def)

lemma set_fst_export_entry:
  "set (fst (export_entry e acc)) = set (fst acc)
     \<union> {(transcript_path e, File (Text (transcript_entry e)))}
     \<union> (case base64Data e of
          None \<Rightarrow> {}
        | Some d \<Rightarrow> if d = [] then {} else {(image_path e, File (Base64 d))})"
  by (auto simp: export_entry_def Let_def zip_file_def split: option.splits)

lemma set_fst_export_entries:
  "set (fst (export_entries h acc)) = set (fst acc)
     \<union> (\<lambda>e. (transcript_path e, File (Text (transcript_entry e)))) ` set h
     \<union> {(image_path e, File (Base64 d)) | e d. e \<in> set h \<and> base64Data e = Some d \<and> d \<noteq> []}"
proof (induction h arbitrary: acc)
  case Nil
  then show ?case by simp
next
  case (Cons a h)
  show ?case
    unfolding export_entries.simps Cons.IH set_fst_export_entry
    by (auto split: option.splits if_splits)
qed

lemma set_build_archive:
  "set (build_archive t h) =
     {(''doodles/'', Folder), (''transcripts/'', Folder),
      (''index.json'', File (JsonText (manifest (map metadata_of h) t)))}
     \<union> (\<lambda>e. (transcript_path e, File (Text (transcript_entry e)))) ` set h
     \<union> {(image_path e, File (Base64 d)) | e d. e \<in> set h \<and> base64Data e = Some d \<and> d \<noteq> []}"
  by (auto simp: build_archive_def Let_def zip_file_def zip_folder_def set_fst_export_entries
      snd_export_entries)

lemma lookup_manifest:
  "zip_lookup (build_archive t h) ''index.json'' =
     Some (File (JsonText (manifest (map metadata_of h) t)))"
  by (simp add: build_archive_def Let_def zip_file_def zip_lookup_def snd_export_entries)

lemma length_remove_entry:
  "length (remove_entry i h) = length h - length (filter (\<lambda>e. id_entry e = i) h)"
  unfolding remove_entry_def
  by (induction h) (auto simp: Suc_diff_le)

lemma subseq_remove_entry: "subseq (remove_entry i h) h"
  unfolding remove_entry_def by (rule subseq_filter_left)

lemma count_remove_entry:
  "count_list (remove_entry i h) e = (if id_entry e = i then 0 else count_list h e)"
  unfolding remove_entry_def by (induction h) auto

lemma remove_entry_absent: "i \<notin> id_entry ` set h \<Longrightarrow> remove_entry i h = h"
  unfolding remove_entry_def by (induction h) auto

lemma one_match_if_distinct:
  "distinct (map id_entry h) \<Longrightarrow> i \<in> id_entry ` set h \<Longrightarrow>
     length (filter (\<lambda>e. id_entry e = i) h) = 1"
proof (induction h)
  case Nil
  then show ?case by simp
next
  case (Cons a h)
  show ?case
  proof (cases "id_entry a = i")
    case True
    with Cons.prems have "i \<notin> id_entry ` set h" by auto
    then have "filter (\<lambda>e. id_entry e = i) h = []" by (auto simp: filter_empty_conv)
    with True show ?thesis by simp
  next
    case False
    with Cons show ?thesis by auto
  qed
qed

lemma history_deleteEntry: "history (deleteEntry i s) = remove_entry i (history s)"
  by (simp add: deleteEntry_def Let_def split: option.splits)

lemma same_ms_history:
  "history same_ms_state =
     [new_entry sample_clock ''Went home'' initial_style picnic_prompt ''data:image/png;base64,iVBORw0KGgo='',
      new_entry sample_clock ''Had a picnic'' initial_style picnic_prompt ''data:image/png;base64,iVBORw0KGgo='']"
  by (simp add: same_ms_state_def handleGenerateDoodle_def generate_remote_def
      generateVisualPrompt_def generateDoodle_def prompt_request_def picnic_state_def
      initial_state_def trim_picnic trim_went_home add_entry_def response_parts_def
      png_response_def picnic_prompt_def Let_def)

section \<open>The archive\<close>

text \<open>
  C1. For a non-empty history the export hands \<^verbatim>\<open>generateAsync\<close> an archive whose
  \<^verbatim>\<open>index.json\<close> is the object \<^verbatim>\<open>{ entries, exportedAt }\<close> with one export time
  stamp. \<open>entries\<close> has one element per history entry, in the history's order;
  its ids, dates, styles and prompts are those of the history; and the keys of
  every element are exactly \<open>id\<close>, \<open>date\<close>, \<open>style\<close> and \<open>prompt\<close>, so neither the
  transcript nor the image is in it. When \<^verbatim>\<open>generateAsync\<close> fulfils, that archive is
  the download.
\<close>

theorem export_manifest:
  assumes "history s \<noteq> []"
  shows "\<exists>z ms. exp_archive (handleExportArchive clk generateAsync s) = Some z
     \<and> zip_lookup z ''index.json'' =
         Some (File (JsonText (JObject [(''entries'', JArray ms),
                                        (''exportedAt'', JString (exportedAt_iso clk))])))
     \<and> length ms = length (history s)
     \<and> map (json_get ''id'') ms = map (\<lambda>e. Some (JString (id_entry e))) (history s)
     \<and> map (json_get ''date'') ms = map (\<lambda>e. Some (JString (date_entry e))) (history s)
     \<and> map (json_get ''style'') ms = map (\<lambda>e. Some (style_json (style_entry e))) (history s)
     \<and> map (json_get ''prompt'') ms = map (\<lambda>e. Some (JString (prompt e))) (history s)
     \<and> (\<forall>m \<in> set ms. json_keys m = [''id'', ''date'', ''style'', ''prompt''])
     \<and> (generateAsync z = None \<longrightarrow>
          exp_download (handleExportArchive clk generateAsync s)
            = Some (download_name (download_iso clk), z))"
proof -
  let ?z = "build_archive (exportedAt_iso clk) (history s)"
  let ?ms = "map metadata_of (history s)"
  have a: "exp_archive (handleExportArchive clk generateAsync s) = Some ?z"
    using assms by (simp add: handleExportArchive_def Let_def split: option.splits)
  have d: "generateAsync ?z = None \<longrightarrow>
      exp_download (handleExportArchive clk generateAsync s)
        = Some (download_name (download_iso clk), ?z)"
    using assms by (simp add: handleExportArchive_def Let_def)
  have l: "zip_lookup ?z ''index.json'' =
      Some (File (JsonText (JObject [(''entries'', JArray ?ms),
                                     (''exportedAt'', JString (exportedAt_iso clk))])))"
    using lookup_manifest [of "exportedAt_iso clk" "history s"] by (simp add: manifest_def)
  have f: "map (json_get ''id'') ?ms = map (\<lambda>e. Some (JString (id_entry e))) (history s)"
    "map (json_get ''date'') ?ms = map (\<lambda>e. Some (JString (date_entry e))) (history s)"
    "map (json_get ''style'') ?ms = map (\<lambda>e. Some (style_json (style_entry e))) (history s)"
    "map (json_get ''prompt'') ?ms = map (\<lambda>e. Some (JString (prompt e))) (history s)"
    by (simp_all add: metadata_of_def)
  have k: "\<forall>m \<in> set ?ms. json_keys m = [''id'', ''date'', ''style'', ''prompt'']"
    by (simp add: metadata_of_def)
  from a d l f k show ?thesis
    by (intro exI [of _ ?z] exI [of _ ?ms]) simp
qed

text \<open>
  The manifest of a two-entry history, written out.
\<close>

theorem export_manifest_witness:
  "history two_entry_state \<noteq> []
   \<and> exp_archive (handleExportArchive sample_export_clock zip_succeeds two_entry_state)
       = Some (build_archive ''2023-11-14T09:30:00.000Z'' [blank_sketch, sketch])
   \<and> zip_lookup (build_archive ''2023-11-14T09:30:00.000Z'' [blank_sketch, sketch]) ''index.json''
       = Some (File (JsonText (JObject
           [(''entries'', JArray
               [JObject [(''id'', JString ''1700000000001''),
                         (''date'', JString ''Tuesday, November 14, 2023''),
                         (''style'', JObject [(''thickness'', JString ''Medium''),
                                              (''color'', JString ''Black''),
                                              (''artStyle'', JString ''Minimalist'')]),
                         (''prompt'', JString ''A Minimalist hand-drawn doodle of a picnic'')],
                JObject [(''id'', JString ''1700000000000''),
                         (''date'', JString ''Tuesday, November 14, 2023''),
                         (''style'', JObject [(''thickness'', JString ''Medium''),
                                              (''color'', JString ''Black''),
                                              (''artStyle'', JString ''Minimalist'')]),
                         (''prompt'', JString ''A Minimalist hand-drawn doodle of a picnic'')]]),
            (''exportedAt'', JString ''2023-11-14T09:30:00.000Z'')])))
   \<and> exp_download (handleExportArchive sample_export_clock zip_succeeds two_entry_state)
       = Some (''DoodleDiary-Archive-2023-11-14.zip'',
               build_archive ''2023-11-14T09:30:00.000Z'' [blank_sketch, sketch])"
  using export_manifest [of two_entry_state sample_export_clock zip_succeeds]
  by (simp add: two_entry_state_def initial_state_def sample_export_clock_def
      handleExportArchive_def lookup_manifest manifest_def metadata_of_def style_json_def
      blank_sketch_def sketch_def initial_style_def thickness_name_def artStyle_name_def
      picnic_prompt_def download_name_def Let_def)

text \<open>
  C2, as the code has it. For every entry of the exported history the archive gets
  the entry's transcript file and the manifest gets the entry's metadata. The
  guard on the image looks only at whether \<^verbatim>\<open>imageUrl.split(',')[1]\<close> is there and
  non-empty: without it the round of the loop writes the transcript file and
  nothing else; with it the archive gets the image file with that piece as base64
  content, whatever the piece is. Every base64 file of the archive comes from
  such an entry. For an image URL made of a comma-free prefix, a comma and a
  comma-free payload, the piece is the payload.
\<close>

theorem export_image_guard:
  assumes "e \<in> set h"
  shows "(transcript_path e, File (Text (transcript_entry e))) \<in> set (build_archive t h)
    \<and> (\<exists>ms. zip_lookup (build_archive t h) ''index.json'' = Some (File (JsonText (manifest ms t)))
             \<and> metadata_of e \<in> set ms)
    \<and> (base64Data e = None \<or> base64Data e = Some [] \<longrightarrow>
         export_entry e acc =
           (zip_file (transcript_path e) (Text (transcript_entry e)) (fst acc),
            snd acc @ [metadata_of e]))
    \<and> (\<forall>d. base64Data e = Some d \<and> d \<noteq> [] \<longrightarrow>
         (image_path e, File (Base64 d)) \<in> set (build_archive t h))
    \<and> (\<forall>p d. (p, File (Base64 d)) \<in> set (build_archive t h) \<longrightarrow>
         (\<exists>e' \<in> set h. p = image_path e' \<and> base64Data e' = Some d \<and> d \<noteq> []))
    \<and> (\<forall>pre d. imageUrl e = pre @ CHR '','' # d \<and> CHR '','' \<notin> set pre \<and> CHR '','' \<notin> set d \<longrightarrow>
         base64Data e = Some d)"
proof -
  have 1: "(transcript_path e, File (Text (transcript_entry e))) \<in> set (build_archive t h)"
    using assms unfolding set_build_archive by blast
  have 2: "\<exists>ms. zip_lookup (build_archive t h) ''index.json'' = Some (File (JsonText (manifest ms t)))
             \<and> metadata_of e \<in> set ms"
    using assms lookup_manifest [of t h] by auto
  have 3: "base64Data e = None \<or> base64Data e = Some [] \<longrightarrow>
         export_entry e acc =
           (zip_file (transcript_path e) (Text (transcript_entry e)) (fst acc),
            snd acc @ [metadata_of e])"
    by (auto simp: export_entry_def)
  have 4: "\<forall>d. base64Data e = Some d \<and> d \<noteq> [] \<longrightarrow>
         (image_path e, File (Base64 d)) \<in> set (build_archive t h)"
    using assms unfolding set_build_archive by blast
  have 5: "\<forall>p d. (p, File (Base64 d)) \<in> set (build_archive t h) \<longrightarrow>
         (\<exists>e' \<in> set h. p = image_path e' \<and> base64Data e' = Some d \<and> d \<noteq> [])"
    unfolding set_build_archive by auto
  have 6: "\<forall>pre d. imageUrl e = pre @ CHR '','' # d \<and> CHR '','' \<notin> set pre \<and> CHR '','' \<notin> set d \<longrightarrow>
         base64Data e = Some d"
    by (auto simp: base64Data_def split_first_sep split_no_sep)
  from 1 2 3 4 5 6 show ?thesis by blast
qed

text \<open>
  An entry without an image and an entry with one: the archive has both
  transcripts, one image and the manifest.
\<close>

theorem export_image_guard_witness:
  "blank_sketch \<in> set [blank_sketch, sketch]
   \<and> base64Data blank_sketch = None
   \<and> base64Data sketch = Some ''iVBORw0KGgo=''
   \<and> build_archive ''2023-11-14T09:30:00.000Z'' [blank_sketch, sketch] =
       [(''doodles/'', Folder),
        (''transcripts/'', Folder),
        (''transcripts/doodle-1700000000001.txt'', File (Text ''Rained all day'')),
        (''transcripts/doodle-1700000000000.txt'', File (Text ''Had a picnic'')),
        (''doodles/doodle-1700000000000.png'', File (Base64 ''iVBORw0KGgo='')),
        (''index.json'',
         File (JsonText (manifest [metadata_of blank_sketch, metadata_of sketch]
                           ''2023-11-14T09:30:00.000Z'')))]"
  using export_image_guard [of blank_sketch "[blank_sketch, sketch]" "''2023-11-14T09:30:00.000Z''"]
  by (simp add: build_archive_def export_entry_def base64Data_def transcript_path_def
      image_path_def fileNameBase_def zip_file_def zip_folder_def blank_sketch_def sketch_def
      Let_def)

text \<open>
  C2 as the specification states it fails: the payload \<^verbatim>\<open>%%%\<close> is not base64, and the export
  writes the image file all the same.
\<close>

theorem export_malformed_payload_counterexample:
  "\<not> well_formed_base64 ''%%%''
   \<and> base64Data garbled_sketch = Some ''%%%''
   \<and> (''doodles/doodle-1700000000002.png'', File (Base64 ''%%%''))
       \<in> set (build_archive ''2023-11-14T09:30:00.000Z'' [garbled_sketch])"
  by (simp add: well_formed_base64_def build_archive_def export_entry_def base64Data_def
      transcript_path_def image_path_def fileNameBase_def zip_file_def zip_folder_def
      garbled_sketch_def sketch_def Let_def)

section \<open>Generation\<close>

text \<open>
  C3. In a state whose transcript is empty or all white space, or whose generating
  flag is set, the generate button is disabled and a click on it changes nothing:
  the state is returned as it was, no remote call is made, nothing is logged. The
  handler behind the button carries the transcript half of the guard itself; the
  generating half is the button's.
\<close>

theorem generate_is_gated:
  "((\<forall>c \<in> set (transcript s). is_white_space c) \<or> isGenerating s \<longrightarrow>
      click_generate clk ai during s = (s, [], []))
   \<and> ((\<forall>c \<in> set (transcript s). is_white_space c) \<longrightarrow>
      handleGenerateDoodle clk ai during s = (s, [], []))"
  by (auto simp: click_generate_def generate_disabled_def handleGenerateDoodle_def trim_empty_iff)

text \<open>
  A transcript of a space and a line feed, a state that is generating, and the
  empty transcript.
\<close>

theorem generate_is_gated_witness:
  "click_generate sample_clock painting_service id (initial_state\<lparr>transcript := [CHR 0x20, CHR 0x0A]\<rparr>)
     = (initial_state\<lparr>transcript := [CHR 0x20, CHR 0x0A]\<rparr>, [], [])
   \<and> click_generate sample_clock painting_service id (picnic_state\<lparr>isGenerating := True\<rparr>)
     = (picnic_state\<lparr>isGenerating := True\<rparr>, [], [])
   \<and> handleGenerateDoodle sample_clock painting_service id initial_state = (initial_state, [], [])"
  using generate_is_gated [of "initial_state\<lparr>transcript := [CHR 0x20, CHR 0x0A]\<rparr>" sample_clock painting_service id]
    generate_is_gated [of "picnic_state\<lparr>isGenerating := True\<rparr>" sample_clock painting_service id]
    generate_is_gated [of initial_state sample_clock painting_service id]
  by (simp add: is_white_space_def initial_state_def)

text \<open>
  C4, as the code has it. When the transcript is not blank and both remote calls
  return, the handler makes exactly those two calls and ends in a state with the
  input transcript cleared, the new entry as the current one and at index 0 of the
  history, in front of the history as it was by then, and the generating flag
  idle. The entry carries the transcript and the style of the state the handler
  was called in. Its image URL is what \<^verbatim>\<open>generateDoodle\<close> returned: it is empty
  exactly when no part of the image response has inline data.
\<close>

theorem generate_success:
  assumes "trim (transcript s) \<noteq> []"
    and "generateVisualPrompt ai (transcript s) (style s) = Inr vp"
    and "ai (ImageRequest vp) = Inr r"
  shows "\<exists>s' e. handleGenerateDoodle clk ai during s =
             (s', [prompt_request (transcript s) (style s), ImageRequest vp], [])
     \<and> transcript s' = []
     \<and> currentDoodle s' = Some e
     \<and> history s' = e # history (during (s\<lparr>isGenerating := True, error := None\<rparr>))
     \<and> index (history s') 0 = Some e
     \<and> style_entry e = style s
     \<and> transcript_entry e = transcript s
     \<and> prompt e = vp
     \<and> imageUrl e = first_inline_image (response_parts r)
     \<and> (imageUrl e = [] \<longleftrightarrow> (\<forall>p \<in> set (response_parts r). inlineData p = None))
     \<and> \<not> isGenerating s'"
  using assms
  by (simp add: handleGenerateDoodle_def generate_remote_def generateDoodle_def Let_def
      add_entry_def new_entry_def first_inline_image_empty_iff)

text \<open>
  The scenario of the specification: "Had a picnic" in the initial style.
\<close>

theorem generate_success_witness:
  "trim (transcript picnic_state) \<noteq> []
   \<and> generateVisualPrompt painting_service (transcript picnic_state) (style picnic_state)
       = Inr picnic_prompt
   \<and> painting_service (ImageRequest picnic_prompt) = Inr png_response
   \<and> fst (handleGenerateDoodle sample_clock painting_service id picnic_state) =
       initial_state
         \<lparr>currentDoodle := Some (new_entry sample_clock ''Had a picnic'' initial_style picnic_prompt
                                   ''data:image/png;base64,iVBORw0KGgo=''),
          history := [new_entry sample_clock ''Had a picnic'' initial_style picnic_prompt
                        ''data:image/png;base64,iVBORw0KGgo='']\<rparr>"
  using generate_success [of picnic_state painting_service picnic_prompt png_response sample_clock id]
  by (simp add: handleGenerateDoodle_def generate_remote_def generateVisualPrompt_def
      generateDoodle_def prompt_request_def picnic_state_def initial_state_def trim_picnic
      add_entry_def response_parts_def png_response_def picnic_prompt_def Let_def)

text \<open>
  C4 as the specification states it fails: both remote calls return, the image response
  has a text part only, and the entry put at index 0 has the empty image URL.
\<close>

theorem generate_empty_image_counterexample:
  "\<not> isl (text_only_service (prompt_request (transcript picnic_state) (style picnic_state)))
   \<and> generateVisualPrompt text_only_service (transcript picnic_state) (style picnic_state)
       = Inr picnic_prompt
   \<and> \<not> isl (text_only_service (ImageRequest picnic_prompt))
   \<and> map imageUrl (history (fst (handleGenerateDoodle sample_clock text_only_service id picnic_state)))
       = [[]]"
  by (simp add: handleGenerateDoodle_def generate_remote_def generateVisualPrompt_def
      generateDoodle_def prompt_request_def picnic_state_def initial_state_def trim_picnic
      add_entry_def response_parts_def text_only_response_def picnic_prompt_def new_entry_def
      Let_def)

text \<open>
  C5. When the transcript is not blank and the first remote call throws, or the
  first returns and the second throws, the handler ends in the state as it was by
  then with two fields set: the error is the one fixed message and the generating
  flag is idle. So the history and the current entry are untouched and no entry
  exists anywhere new; what was thrown goes to the console only.
\<close>

theorem generate_failure:
  assumes "trim (transcript s) \<noteq> []"
    and "ai (prompt_request (transcript s) (style s)) = Inl err
         \<or> (\<exists>vp. generateVisualPrompt ai (transcript s) (style s) = Inr vp
                  \<and> ai (ImageRequest vp) = Inl err)"
  shows "\<exists>s' calls. handleGenerateDoodle clk ai during s = (s', calls, [err])
     \<and> s' = (during (s\<lparr>isGenerating := True, error := None\<rparr>))
              \<lparr>error := Some generate_failed, isGenerating := False\<rparr>
     \<and> history s' = history (during (s\<lparr>isGenerating := True, error := None\<rparr>))
     \<and> currentDoodle s' = currentDoodle (during (s\<lparr>isGenerating := True, error := None\<rparr>))
     \<and> error s' = Some generate_failed
     \<and> \<not> isGenerating s'"
  using assms
  by (auto simp add: handleGenerateDoodle_def generate_remote_def generateDoodle_def
      generateVisualPrompt_def Let_def)

text \<open>
  A service whose first call throws and one whose second call throws: the same
  end state, after one call and after two.
\<close>

theorem generate_failure_witness:
  "trim (transcript picnic_state) \<noteq> []
   \<and> failing_prompt_service (prompt_request (transcript picnic_state) (style picnic_state)) = Inl ''503''
   \<and> handleGenerateDoodle sample_clock failing_prompt_service id picnic_state =
       (picnic_state\<lparr>error := Some generate_failed\<rparr>,
        [prompt_request ''Had a picnic'' initial_style], [''503''])
   \<and> failing_image_service (ImageRequest picnic_prompt) = Inl ''quota''
   \<and> handleGenerateDoodle sample_clock failing_image_service id picnic_state =
       (picnic_state\<lparr>error := Some generate_failed\<rparr>,
        [prompt_request ''Had a picnic'' initial_style, ImageRequest picnic_prompt], [''quota''])"
  using generate_failure [of picnic_state failing_prompt_service "''503''" sample_clock id]
    generate_failure [of picnic_state failing_image_service "''quota''" sample_clock id]
  by (simp add: handleGenerateDoodle_def generate_remote_def generateVisualPrompt_def
      generateDoodle_def prompt_request_def picnic_state_def initial_state_def trim_picnic
      picnic_prompt_def Let_def)

section \<open>Loading\<close>




section \<open>The history\<close>

text \<open>
  C6, as the code has it. Deleting by id shortens the history by the number of
  entries that carry the id: by one when exactly one does, which is the case
  when the id occurs and the ids of the history are distinct. What remains is a
  subsequence of the history that keeps every other entry as often as it was
  there, so their relative order is unchanged. When no entry carries the id the
  history is unchanged.
\<close>

theorem remove_size_and_order:
  "length (history (deleteEntry i s))
     = length (history s) - length (filter (\<lambda>e. id_entry e = i) (history s))
   \<and> (length (filter (\<lambda>e. id_entry e = i) (history s)) = 1 \<longrightarrow>
        length (history (deleteEntry i s)) = length (history s) - 1)
   \<and> (distinct (map id_entry (history s)) \<and> i \<in> id_entry ` set (history s) \<longrightarrow>
        length (history (deleteEntry i s)) = length (history s) - 1)
   \<and> subseq (history (deleteEntry i s)) (history s)
   \<and> (\<forall>e. id_entry e \<noteq> i \<longrightarrow>
        count_list (history (deleteEntry i s)) e = count_list (history s) e)
   \<and> (i \<notin> id_entry ` set (history s) \<longrightarrow> history (deleteEntry i s) = history s)"
  by (simp add: history_deleteEntry length_remove_entry subseq_remove_entry count_remove_entry
      remove_entry_absent one_match_if_distinct)

text \<open>
  Deleting one of two entries, and deleting an id that is not there.
\<close>

theorem remove_size_and_order_witness:
  "distinct (map id_entry (history two_entry_state))
   \<and> ''1700000000000'' \<in> id_entry ` set (history two_entry_state)
   \<and> history (deleteEntry ''1700000000000'' two_entry_state) = [blank_sketch]
   \<and> ''42'' \<notin> id_entry ` set (history two_entry_state)
   \<and> history (deleteEntry ''42'' two_entry_state) = [blank_sketch, sketch]"
  using remove_size_and_order [of "''1700000000000''" two_entry_state]
    remove_size_and_order [of "''42''" two_entry_state]
  by (simp add: history_deleteEntry remove_entry_def two_entry_state_def blank_sketch_def
      sketch_def)

text \<open>
  C6 as the specification states it fails: two generations that read the same clock value
  give two entries with one id, and deleting that id takes the history from size
  2 to size 0, not to size 1.
\<close>

theorem remove_shared_id_counterexample:
  "length (history same_ms_state) = 2
   \<and> map id_entry (history same_ms_state)
       = [toString (now_ms sample_clock), toString (now_ms sample_clock)]
   \<and> length (history (deleteEntry (toString (now_ms sample_clock)) same_ms_state)) = 0
   \<and> length (history (deleteEntry (toString (now_ms sample_clock)) same_ms_state))
       \<noteq> length (history same_ms_state) - 1"
  by (simp add: history_deleteEntry remove_entry_def same_ms_history new_entry_def)

text \<open>
  C7. Adding an entry puts it at index 0 and leaves the earlier entries behind it
  as they were; adding \<open>e1\<close>, then \<open>e2\<close>, then \<open>e3\<close> to the empty history gives
  \<open>[e3, e2, e1]\<close>.
\<close>

theorem add_front:
  "index (add_entry e h) 0 = Some e
   \<and> drop 1 (add_entry e h) = h
   \<and> add_entry e3 (add_entry e2 (add_entry e1 [])) = [e3, e2, e1]"
  by (simp add: add_entry_def)

text \<open>
  C9. Deleting by id clears the current-entry reference when it points to an
  entry with that id, and leaves it as it is when it points to an entry with
  another id or to none.
\<close>

theorem delete_clears_current:
  "(\<forall>d. currentDoodle s = Some d \<and> id_entry d = i \<longrightarrow> currentDoodle (deleteEntry i s) = None)
   \<and> (\<forall>d. currentDoodle s = Some d \<and> id_entry d \<noteq> i \<longrightarrow>
        currentDoodle (deleteEntry i s) = Some d)
   \<and> (currentDoodle s = None \<longrightarrow> currentDoodle (deleteEntry i s) = None)"
  by (simp add: deleteEntry_def Let_def)

text \<open>
  The current entry is \<open>sketch\<close>: deleting its id clears the reference, deleting
  the other entry's id keeps it, and with no current entry there is none after.
\<close>

theorem delete_clears_current_witness:
  "currentDoodle two_entry_state = Some sketch
   \<and> currentDoodle (deleteEntry ''1700000000000'' two_entry_state) = None
   \<and> currentDoodle (deleteEntry ''1700000000001'' two_entry_state) = Some sketch
   \<and> currentDoodle (deleteEntry ''1700000000000'' twin_state) = None"
  using delete_clears_current [of two_entry_state "''1700000000000''"]
    delete_clears_current [of two_entry_state "''1700000000001''"]
    delete_clears_current [of twin_state "''1700000000000''"]
  by (simp add: deleteEntry_def two_entry_state_def twin_state_def initial_state_def sketch_def
      Let_def)

text \<open>
  C10. After deleting by id no entry of the history carries that id, however many
  carried it before: every entry with the id is removed, not only the first.
\<close>

theorem remove_all_matches:
  "\<forall>e \<in> set (history (deleteEntry i s)). id_entry e \<noteq> i"
  by (simp add: history_deleteEntry remove_entry_def)

text \<open>
  A history in which the first and the third entry share an id: one deletion
  removes both.
\<close>

theorem remove_all_matches_witness:
  "map id_entry (history twin_state) = [''1700000000000'', ''1700000000001'', ''1700000000000'']
   \<and> history (deleteEntry ''1700000000000'' twin_state) = [blank_sketch]
   \<and> id_entry blank_sketch \<noteq> ''1700000000000''"
  using remove_all_matches [of "''1700000000000''" twin_state]
  by (simp add: history_deleteEntry remove_entry_def twin_state_def blank_sketch_def sketch_def)

end
